theory Spec2Isabelle
  imports Complex_Main "HOL-Library.Word"
begin

section \<open>A PDF question-answering pipeline over a flat inner-product index\<close>

text \<open>
  The development embeds \<^verbatim>\<open>src/vector_store.py\<close> (class \<^verbatim>\<open>FAISSVectorStore\<close>) and
  \<^verbatim>\<open>pdf_rag_pipeline.py\<close> (class \<^verbatim>\<open>PDFRAGPipeline\<close>).

  Conventions of the embedding:
  \<^item> numpy's float32 numbers are idealised as real numbers, so \<^verbatim>\<open>astype('float32')\<close> is
    the identity and no rounding, overflow, underflow or NaN is modelled; what the program
    computes in float32 can therefore differ from the model where a squared norm leaves the
    float32 range;
  \<^item> a method that mutates \<^verbatim>\<open>self\<close> takes the object and returns it updated; a method that
    may raise after it has mutated \<^verbatim>\<open>self\<close> returns the pair of its outcome and the object
    as the exception leaves it;
  \<^item> an exception is the \<open>Inl\<close> branch of a sum;
  \<^item> the files on disk are a map from file names to contents; directories and write
    failures of the operating system are not modelled;
  \<^item> \<^verbatim>\<open>print\<close> is dropped.
\<close>

subsection \<open>Exceptions\<close>

datatype error =
    AssertionError       \<comment> \<open>an \<^verbatim>\<open>assert\<close> of the faiss Python wrapper\<close>
  | IndexError           \<comment> \<open>Python list index out of range\<close>
  | AttributeError       \<comment> \<open>a method called on \<^verbatim>\<open>None\<close>\<close>
  | Exception string     \<comment> \<open>raised by one of the collaborators\<close>

subsection \<open>Configuration\<close>

text \<open>
  \<^verbatim>\<open>config/config.py\<close> is not among the sources; the three constants the code reads are taken
  as parameters.
\<close>

record Config =
  VECTOR_DIMENSION :: nat
  FAISS_INDEX_PATH :: string
  TOP_K_RESULTS :: int

subsection \<open>Arrays\<close>

text \<open>
  A two-dimensional numpy array of shape \<open>(length rows, ncols)\<close>, each row meant to
  have \<open>ncols\<close> entries. The width is kept apart from the rows because an array without
  rows still has one.
\<close>

record ndarray =
  ncols :: nat
  rows :: "real list list"

definition len_array :: "ndarray \<Rightarrow> nat" where
  "len_array a = length (rows a)"

text \<open>
  Subscripting a Python list of length \<open>n\<close>: the positions \<open>0 .. n - 1\<close> are read
  directly, the positions \<open>-n .. -1\<close> are read from the end, anything else raises.
\<close>

definition getitem :: "'a list \<Rightarrow> int \<Rightarrow> error + 'a" where
  "getitem xs i =
     (if 0 \<le> i \<and> i < int (length xs) then Inr (xs ! nat i)
      else if - int (length xs) \<le> i \<and> i < 0 then Inr (xs ! nat (int (length xs) + i))
      else Inl IndexError)"

subsection \<open>The library: \<^verbatim>\<open>faiss.IndexFlatIP\<close> and \<^verbatim>\<open>faiss.normalize_L2\<close>\<close>

text \<open>
  faiss is a third-party library. Its flat inner-product index is modelled by its documented
  behaviour: it stores the rows it is given, in order; \<^verbatim>\<open>add\<close> and \<^verbatim>\<open>search\<close> assert that
  the width of their argument is the index's \<open>d\<close>, and \<^verbatim>\<open>search\<close> asserts \<open>k > 0\<close>;
  \<^verbatim>\<open>search\<close> returns exactly \<open>k\<close> scores and labels, the best first, and where fewer than
  \<open>k\<close> rows are stored the missing places hold the label \<open>-1\<close> and the lowest float.
  Among rows of equal score the library lists the larger label first.
\<close>

record IndexFlatIP =
  index_d :: nat
  index_xb :: "real list list"

definition ntotal :: "IndexFlatIP \<Rightarrow> nat" where
  "ntotal ix = length (index_xb ix)"

definition new_IndexFlatIP :: "nat \<Rightarrow> IndexFlatIP" where
  "new_IndexFlatIP n = \<lparr>index_d = n, index_xb = []\<rparr>"

definition index_add :: "IndexFlatIP \<Rightarrow> ndarray \<Rightarrow> error + IndexFlatIP" where
  "index_add ix x =
     (if ncols x \<noteq> index_d ix then Inl AssertionError
      else Inr (ix\<lparr>index_xb := index_xb ix @ rows x\<rparr>))"

definition inner_product :: "real list \<Rightarrow> real list \<Rightarrow> real" where
  "inner_product x y = sum_list (map2 (*) x y)"

definition FLT_LOWEST :: real where
  "FLT_LOWEST = - 340282346638528859811704183484516925440"

text \<open>
  The sort is stable, so sorting the rows taken from the last to the first puts the larger
  label first among equal scores.
\<close>

definition ranked :: "IndexFlatIP \<Rightarrow> real list \<Rightarrow> (real \<times> int) list" where
  "ranked ix q =
     sort_key (\<lambda>p. - fst p)
       (rev (zip (map (inner_product q) (index_xb ix)) (map int [0..<ntotal ix])))"

definition index_search :: "IndexFlatIP \<Rightarrow> real list \<Rightarrow> int \<Rightarrow> error + (real list \<times> int list)" where
  "index_search ix q k =
     (if length q \<noteq> index_d ix then Inl AssertionError
      else if k \<le> 0 then Inl AssertionError
      else let top = take (nat k) (ranked ix q);
               res = top @ replicate (nat k - length top) (FLT_LOWEST, - 1)
           in Inr (map fst res, map snd res))"

definition norm_L2sqr :: "real list \<Rightarrow> real" where
  "norm_L2sqr x = sum_list (map (\<lambda>c. c * c) x)"

text \<open>
  One row of \<^verbatim>\<open>faiss.normalize_L2\<close>: a row whose squared norm is not positive is left alone.
  The library computes the squared norm in float32: there the squared norm of a row such as
  \<open>(1e-30, 0)\<close> underflows to zero and the row is left unscaled, and that of \<open>(1e20, 0)\<close>
  overflows and the row becomes \<open>(0, 0)\<close>. Over the real numbers neither happens.
\<close>

definition fvec_renorm_L2 :: "real list \<Rightarrow> real list" where
  "fvec_renorm_L2 x =
     (let nr = norm_L2sqr x
      in if nr > 0 then map (\<lambda>c. c * (1 / sqrt nr)) x else x)"

definition faiss_normalize_L2 :: "ndarray \<Rightarrow> ndarray" where
  "faiss_normalize_L2 a = a\<lparr>rows := map fvec_renorm_L2 (rows a)\<rparr>"

text \<open>
  \<^verbatim>\<open>np.linalg.norm\<close> of one row; numpy too computes it in float32, with the same underflow
  and overflow, which the real numbers do not have.
\<close>

definition linalg_norm :: "real list \<Rightarrow> real" where
  "linalg_norm x = sqrt (sum_list (map (\<lambda>c. c * c) x))"

subsection \<open>\<^verbatim>\<open>FAISSVectorStore\<close>\<close>

record FAISSVectorStore =
  dimension :: nat
  index :: "IndexFlatIP option"
  texts :: "string list"
  index_path :: string

definition init_store :: "Config \<Rightarrow> FAISSVectorStore" where
  "init_store cfg =
     \<lparr>dimension = VECTOR_DIMENSION cfg, index = None, texts = [],
      index_path = FAISS_INDEX_PATH cfg\<rparr>"

definition create_index :: "FAISSVectorStore \<Rightarrow> FAISSVectorStore" where
  "create_index st = st\<lparr>index := Some (new_IndexFlatIP (dimension st))\<rparr>"

text \<open>
  The \<^verbatim>\<open>except\<close> branch of \<^verbatim>\<open>add_embeddings\<close>:
  \<^verbatim>\<open>norms = np.linalg.norm(embeddings, axis=1, keepdims=True); norms[norms == 0] = 1;
  embeddings = embeddings / norms\<close>.
\<close>

definition fallback_norms :: "ndarray \<Rightarrow> real list" where
  "fallback_norms a = map (\<lambda>n. if n = 0 then 1 else n) (map linalg_norm (rows a))"

definition manual_normalize :: "ndarray \<Rightarrow> ndarray" where
  "manual_normalize a =
     a\<lparr>rows := map2 (\<lambda>x n. map (\<lambda>c. c / n) x) (rows a) (fallback_norms a)\<rparr>"

text \<open>
  Whether \<^verbatim>\<open>faiss.normalize_L2\<close> raises depends on the installed library versions (the
  source's comment), so it is the parameter \<open>raises\<close>; when it raises it has changed nothing.
\<close>

definition normalize_embeddings :: "bool \<Rightarrow> ndarray \<Rightarrow> ndarray" where
  "normalize_embeddings raises a =
     (if raises then manual_normalize a else faiss_normalize_L2 a)"

definition add_embeddings ::
  "bool \<Rightarrow> FAISSVectorStore \<Rightarrow> ndarray \<Rightarrow> string list \<Rightarrow> (error + unit) \<times> FAISSVectorStore" where
  "add_embeddings raises st embeddings txts =
     (let st1 = (if index st = None then create_index st else st);
          emb = normalize_embeddings raises embeddings
      in case index st1 of
           None \<Rightarrow> (Inl AttributeError, st1)
         | Some ix \<Rightarrow>
             (case index_add ix emb of
                Inl e \<Rightarrow> (Inl e, st1)
              | Inr ix' \<Rightarrow> (Inr (), st1\<lparr>index := Some ix', texts := texts st1 @ txts\<rparr>)))"

text \<open>
  The \<^verbatim>\<open>try\<close>/\<^verbatim>\<open>except\<close> of \<^verbatim>\<open>search\<close> on the query, reshaped to one row:
  \<^verbatim>\<open>norm = np.linalg.norm(query_embedding); if norm > 0: query_embedding = query_embedding / norm\<close>.
\<close>

definition normalize_query :: "bool \<Rightarrow> real list \<Rightarrow> real list" where
  "normalize_query raises q =
     (if raises
      then (let norm = linalg_norm q in if norm > 0 then map (\<lambda>c. c / norm) q else q)
      else fvec_renorm_L2 q)"

text \<open>\<^verbatim>\<open>[self.texts[idx] for idx in indices[0] if idx < len(self.texts)]\<close>\<close>

fun lookup_texts :: "string list \<Rightarrow> int list \<Rightarrow> error + string list" where
  "lookup_texts ts [] = Inr []"
| "lookup_texts ts (idx # rest) =
     (if idx < int (length ts)
      then (case getitem ts idx of
              Inl e \<Rightarrow> Inl e
            | Inr t \<Rightarrow> (case lookup_texts ts rest of Inl e \<Rightarrow> Inl e | Inr r \<Rightarrow> Inr (t # r)))
      else lookup_texts ts rest)"

definition search ::
  "bool \<Rightarrow> FAISSVectorStore \<Rightarrow> real list \<Rightarrow> int \<Rightarrow> error + (string list \<times> real list)" where
  "search raises st query_embedding k =
     (case index st of
        None \<Rightarrow> Inr ([], [])
      | Some ix \<Rightarrow>
          if ntotal ix = 0 then Inr ([], [])
          else
            (case index_search ix (normalize_query raises query_embedding) k of
               Inl e \<Rightarrow> Inl e
             | Inr (scores, indices) \<Rightarrow>
                 (case lookup_texts (texts st) indices of
                    Inl e \<Rightarrow> Inl e
                  | Inr similar_texts \<Rightarrow> Inr (similar_texts, scores))))"

subsection \<open>Persistence\<close>

text \<open>
  A file holds a serialised index, the four bytes the library writes for a missing index,
  a pickled list of texts, or something neither reader accepts. \<^verbatim>\<open>os.makedirs\<close> only
  prepares the directory and is left out.
\<close>

datatype file_content =
    IndexFile IndexFlatIP
  | NullIndexFile
  | PickleFile "string list"
  | OtherFile

type_synonym filesystem = "string \<rightharpoonup> file_content"

definition resolve_path :: "FAISSVectorStore \<Rightarrow> string option \<Rightarrow> string" where
  "resolve_path st filepath = (case filepath of None \<Rightarrow> index_path st | Some p \<Rightarrow> p)"

text \<open>
  \<^verbatim>\<open>faiss.write_index\<close> accepts \<^verbatim>\<open>None\<close> and then writes the marker of a missing index.
  Since failures of the file system are left out, \<^verbatim>\<open>save_index\<close> always returns.
\<close>

definition save_index ::
  "FAISSVectorStore \<Rightarrow> filesystem \<Rightarrow> string option \<Rightarrow> (error + unit) \<times> filesystem" where
  "save_index st fs filepath =
     (let fp = resolve_path st filepath;
          fs1 = fs(fp @ ''.index'' \<mapsto>
                   (case index st of None \<Rightarrow> NullIndexFile | Some ix \<Rightarrow> IndexFile ix));
          fs2 = fs1(fp @ ''_texts.pkl'' \<mapsto> PickleFile (texts st))
      in (Inr (), fs2))"

text \<open>
  \<^verbatim>\<open>load_index\<close> catches every exception raised inside its \<^verbatim>\<open>try\<close> and answers \<^verbatim>\<open>False\<close>;
  when the second read fails, \<^verbatim>\<open>self.index\<close> has already been replaced. From the marker of
  a missing index \<^verbatim>\<open>faiss.read_index\<close> returns \<^verbatim>\<open>None\<close>; both reads then go through, and
  the message printed at the end of the \<^verbatim>\<open>try\<close> raises on \<^verbatim>\<open>self.index.ntotal\<close>.
\<close>

definition load_index ::
  "FAISSVectorStore \<Rightarrow> filesystem \<Rightarrow> string option \<Rightarrow> bool \<times> FAISSVectorStore" where
  "load_index st fs filepath =
     (let fp = resolve_path st filepath;
          index_file = fp @ ''.index'';
          texts_file = fp @ ''_texts.pkl''
      in if \<not> (fs index_file \<noteq> None \<and> fs texts_file \<noteq> None) then (False, st)
         else
           (case fs index_file of
              Some (IndexFile ix) \<Rightarrow>
                (let st1 = st\<lparr>index := Some ix\<rparr>
                 in case fs texts_file of
                      Some (PickleFile ts) \<Rightarrow> (True, st1\<lparr>texts := ts\<rparr>)
                    | _ \<Rightarrow> (False, st1))
            | Some NullIndexFile \<Rightarrow>
                (let st1 = st\<lparr>index := None\<rparr>
                 in case fs texts_file of
                      Some (PickleFile ts) \<Rightarrow> (False, st1\<lparr>texts := ts\<rparr>)
                    | _ \<Rightarrow> (False, st1))
            | _ \<Rightarrow> (False, st)))"

text \<open>The dictionary of \<^verbatim>\<open>get_stats\<close>; the key \<^verbatim>\<open>total_texts\<close> is absent before an index exists.\<close>

record store_stats =
  stats_total_embeddings :: nat
  stats_dimension :: nat
  stats_total_texts :: "nat option"

definition get_stats :: "FAISSVectorStore \<Rightarrow> store_stats" where
  "get_stats st =
     (case index st of
        None \<Rightarrow> \<lparr>stats_total_embeddings = 0, stats_dimension = dimension st,
                 stats_total_texts = None\<rparr>
      | Some ix \<Rightarrow> \<lparr>stats_total_embeddings = ntotal ix, stats_dimension = dimension st,
                    stats_total_texts = Some (length (texts st))\<rparr>)"

subsection \<open>\<^verbatim>\<open>PDFRAGPipeline\<close>\<close>

text \<open>
  The collaborators of the pipeline are not among the sources (\<^verbatim>\<open>src/embeddings.py\<close>,
  \<^verbatim>\<open>src/llm.py\<close>, \<^verbatim>\<open>src/document_processor.py\<close>) or wrap a third-party PDF reader
  (\<^verbatim>\<open>PDFProcessor.process_pdf_content\<close>), so each is a parameter: a function that returns
  a value or raises. The embedding of a batch is taken to be a two-dimensional array.
\<close>

type_synonym bytes = "8 word list"

record collaborators =
  process_pdf_content :: "bytes \<Rightarrow> error + string list"
  generate_embeddings :: "string list \<Rightarrow> error + ndarray"
  generate_single_embedding :: "string \<Rightarrow> error + real list"
  generate_response :: "string \<Rightarrow> string list \<Rightarrow> error + string"
  normalize_L2_raises :: bool

record PDFRAGPipeline =
  vector_store :: FAISSVectorStore
  is_indexed :: bool

definition init_pipeline :: "Config \<Rightarrow> PDFRAGPipeline" where
  "init_pipeline cfg = \<lparr>vector_store = init_store cfg, is_indexed = False\<rparr>"

record ingest_stats =
  total_documents :: nat
  total_chunks :: nat
  total_embeddings :: nat
  vector_store_stats :: store_stats

text \<open>The \<^verbatim>\<open>for\<close> loop of \<^verbatim>\<open>ingest_pdf_documents\<close>, with its two accumulators.\<close>

fun process_documents ::
  "(bytes \<Rightarrow> error + string list) \<Rightarrow> bytes list \<Rightarrow> string list \<Rightarrow> nat
     \<Rightarrow> error + (string list \<times> nat)" where
  "process_documents f [] all_chunks n = Inr (all_chunks, n)"
| "process_documents f (pdf_content # rest) all_chunks n =
     (case f pdf_content of
        Inl e \<Rightarrow> Inl e
      | Inr chunks \<Rightarrow> process_documents f rest (all_chunks @ chunks) (n + length chunks))"

definition ingest_pdf_documents ::
  "collaborators \<Rightarrow> PDFRAGPipeline \<Rightarrow> filesystem \<Rightarrow> bytes list
     \<Rightarrow> (error + ingest_stats) \<times> PDFRAGPipeline \<times> filesystem" where
  "ingest_pdf_documents cs p fs pdf_contents =
     (case process_documents (process_pdf_content cs) pdf_contents [] 0 of
        Inl e \<Rightarrow> (Inl e, p, fs)
      | Inr (all_chunks, n_chunks) \<Rightarrow>
          (case generate_embeddings cs all_chunks of
             Inl e \<Rightarrow> (Inl e, p, fs)
           | Inr embeddings \<Rightarrow>
               (case add_embeddings (normalize_L2_raises cs) (vector_store p) embeddings all_chunks of
                  (Inl e, vs) \<Rightarrow> (Inl e, p\<lparr>vector_store := vs\<rparr>, fs)
                | (Inr u, vs) \<Rightarrow>
                    (case save_index vs fs (Some ''pdf_faiss_index'') of
                       (Inl e, fs1) \<Rightarrow> (Inl e, p\<lparr>vector_store := vs\<rparr>, fs1)
                     | (Inr v, fs1) \<Rightarrow>
                         (Inr \<lparr>total_documents = length pdf_contents,
                               total_chunks = n_chunks,
                               total_embeddings = len_array embeddings,
                               vector_store_stats = get_stats vs\<rparr>,
                          p\<lparr>vector_store := vs, is_indexed := True\<rparr>, fs1)))))"

text \<open>
  The dictionaries \<^verbatim>\<open>query\<close> returns: the keys \<^verbatim>\<open>error\<close> and \<^verbatim>\<open>num_context_chunks\<close> are
  present in some of them only. Each field \<open>q_x\<close> is the key \<^verbatim>\<open>x\<close>.
\<close>

record query_result =
  q_response :: string
  q_context :: "string list"
  q_similarity_scores :: "real list"
  q_error :: "string option"
  q_num_context_chunks :: "nat option"

definition not_indexed_result :: query_result where
  "not_indexed_result =
     \<lparr>q_response = ''Error: No PDF documents have been indexed yet. Please ingest PDF documents first.'',
      q_context = [], q_similarity_scores = [], q_error = Some ''No index available'',
      q_num_context_chunks = None\<rparr>"

definition no_context_result :: query_result where
  "no_context_result =
     \<lparr>q_response = ''I couldn't find any relevant information in the PDF documents to answer your question.'',
      q_context = [], q_similarity_scores = [], q_error = Some ''No relevant context found'',
      q_num_context_chunks = None\<rparr>"

definition query ::
  "collaborators \<Rightarrow> PDFRAGPipeline \<Rightarrow> string \<Rightarrow> int \<Rightarrow> error + query_result" where
  "query cs p question top_k =
     (if \<not> is_indexed p then Inr not_indexed_result
      else
        (case generate_single_embedding cs question of
           Inl e \<Rightarrow> Inl e
         | Inr query_embedding \<Rightarrow>
             (case search (normalize_L2_raises cs) (vector_store p) query_embedding top_k of
                Inl e \<Rightarrow> Inl e
              | Inr (similar_texts, scores) \<Rightarrow>
                  if similar_texts = [] then Inr no_context_result
                  else
                    (case generate_response cs question similar_texts of
                       Inl e \<Rightarrow> Inl e
                     | Inr r \<Rightarrow>
                         Inr \<lparr>q_response = r, q_context = similar_texts,
                              q_similarity_scores = scores, q_error = None,
                              q_num_context_chunks = Some (length similar_texts)\<rparr>))))"

definition reset_pipeline :: "Config \<Rightarrow> PDFRAGPipeline \<Rightarrow> PDFRAGPipeline" where
  "reset_pipeline cfg p = p\<lparr>vector_store := init_store cfg, is_indexed := False\<rparr>"

subsection \<open>Notions used in the statements\<close>

text \<open>The rows an object holds, and the width its index checks (or will be created with).\<close>

definition stored_rows :: "FAISSVectorStore \<Rightarrow> real list list" where
  "stored_rows st = (case index st of None \<Rightarrow> [] | Some ix \<Rightarrow> index_xb ix)"

definition index_width :: "FAISSVectorStore \<Rightarrow> nat" where
  "index_width st = (case index st of None \<Rightarrow> dimension st | Some ix \<Rightarrow> index_d ix)"

subsection \<open>Concrete inputs\<close>

definition example_config :: Config where
  "example_config = \<lparr>VECTOR_DIMENSION = 2, FAISS_INDEX_PATH = ''faiss_index'', TOP_K_RESULTS = 5\<rparr>"

text \<open>Collaborators that raise whenever they are called.\<close>

definition raising_collaborators :: collaborators where
  "raising_collaborators =
     \<lparr>process_pdf_content = (\<lambda>b. Inl (Exception ''extraction'')),
      generate_embeddings = (\<lambda>ts. Inl (Exception ''embedding'')),
      generate_single_embedding = (\<lambda>t. Inl (Exception ''embedding'')),
      generate_response = (\<lambda>q ts. Inl (Exception ''generation'')),
      normalize_L2_raises = False\<rparr>"

text \<open>
  Collaborators that find two chunks in every document, embed any batch as the single row
  \<open>(1, 0)\<close> and any question as \<open>(1, 0)\<close>.
\<close>

definition one_row_collaborators :: collaborators where
  "one_row_collaborators =
     \<lparr>process_pdf_content = (\<lambda>b. Inr [''first chunk'', ''second chunk'']),
      generate_embeddings = (\<lambda>ts. Inr \<lparr>ncols = 2, rows = [[1, 0]]\<rparr>),
      generate_single_embedding = (\<lambda>t. Inr [1, 0]),
      generate_response = (\<lambda>q ts. Inr ''an answer''),
      normalize_L2_raises = False\<rparr>"

text \<open>Collaborators that find no text in any document and embed a batch as an array without rows.\<close>

definition no_text_collaborators :: collaborators where
  "no_text_collaborators =
     \<lparr>process_pdf_content = (\<lambda>b. Inr []),
      generate_embeddings = (\<lambda>ts. Inr \<lparr>ncols = 2, rows = []\<rparr>),
      generate_single_embedding = (\<lambda>t. Inr [1, 0]),
      generate_response = (\<lambda>q ts. Inr ''an answer''),
      normalize_L2_raises = False\<rparr>"

text \<open>An object holding the same unit row twice, and one holding the two axes.\<close>

definition twin_store :: FAISSVectorStore where
  "twin_store =
     \<lparr>dimension = 2, index = Some \<lparr>index_d = 2, index_xb = [[1, 0], [1, 0]]\<rparr>,
      texts = [''a'', ''b''], index_path = ''faiss_index''\<rparr>"

definition axes_store :: FAISSVectorStore where
  "axes_store =
     \<lparr>dimension = 2, index = Some \<lparr>index_d = 2, index_xb = [[1, 0], [0, 1]]\<rparr>,
      texts = [''a'', ''b''], index_path = ''faiss_index''\<rparr>"

section \<open>Normalisation\<close>

lemma norm_L2sqr_nonneg: "0 \<le> norm_L2sqr x"
  unfolding norm_L2sqr_def by (induction x) simp_all

lemma linalg_norm_sqrt: "linalg_norm x = sqrt (norm_L2sqr x)"
  by (simp add: linalg_norm_def norm_L2sqr_def)

lemma linalg_norm_nonneg: "0 \<le> linalg_norm x"
  by (simp add: linalg_norm_sqrt norm_L2sqr_nonneg)

lemma length_normalize_query: "length (normalize_query raises q) = length q"
  by (simp add: normalize_query_def fvec_renorm_L2_def Let_def)

text \<open>The fallback of \<^verbatim>\<open>add_embeddings\<close> treats every row as \<^verbatim>\<open>search\<close> treats its query.\<close>

lemma manual_rows: "rows (manual_normalize a) = map (normalize_query True) (rows a)"
proof -
  have "map2 (\<lambda>x n. map (\<lambda>c. c / n) x) xs
          (map (\<lambda>n. if n = 0 then 1 else n) (map linalg_norm xs))
        = map (normalize_query True) xs" for xs
  proof (induction xs)
    case Nil
    then show ?case by simp
  next
    case (Cons x xs)
    have "0 \<le> linalg_norm x" by (rule linalg_norm_nonneg)
    then have "map (\<lambda>c. c / (if linalg_norm x = 0 then 1 else linalg_norm x)) x
                 = normalize_query True x"
      by (simp add: normalize_query_def)
    with Cons show ?case by simp
  qed
  then show ?thesis by (simp add: manual_normalize_def fallback_norms_def)
qed

lemma normalize_embeddings_rows:
  "rows (normalize_embeddings raises a) = map (normalize_query raises) (rows a)"
  by (simp add: normalize_embeddings_def manual_rows faiss_normalize_L2_def normalize_query_def)

lemma normalize_embeddings_ncols: "ncols (normalize_embeddings raises a) = ncols a"
  by (simp add: normalize_embeddings_def manual_normalize_def faiss_normalize_L2_def)

section \<open>Adding rows\<close>

lemma add_embeddings_wrong_width:
  assumes "ncols e \<noteq> index_width st"
  shows "add_embeddings raises st e ts
           = (Inl AssertionError, if index st = None then create_index st else st)"
  using assms
  by (auto simp: add_embeddings_def index_width_def create_index_def new_IndexFlatIP_def
      index_add_def normalize_embeddings_ncols Let_def split: option.splits)

lemma add_embeddings_right_width:
  assumes "ncols e = index_width st"
  shows "add_embeddings raises st e ts
           = (Inr (),
              st\<lparr>index := Some \<lparr>index_d = index_width st,
                                 index_xb = stored_rows st @ rows (normalize_embeddings raises e)\<rparr>,
                 texts := texts st @ ts\<rparr>)"
  using assms
  by (auto simp: add_embeddings_def index_width_def stored_rows_def create_index_def
      new_IndexFlatIP_def index_add_def normalize_embeddings_ncols Let_def split: option.splits)

lemma size_is_stored_rows: "stats_total_embeddings (get_stats st) = length (stored_rows st)"
  by (simp add: get_stats_def stored_rows_def ntotal_def split: option.splits)

text \<open>
  C2, as amended. \<^verbatim>\<open>add_embeddings\<close> checks one thing, through the library: the width of
  the batch. A batch of another width than the index's raises the library's assertion error
  and leaves the stored rows and the texts as they were. A batch of the right width is
  accepted whatever the number of texts given with it: the index grows by the number of rows
  and the text list by the texts.
\<close>

theorem add_embeddings_checks_width_only:
  "(ncols e \<noteq> index_width st \<longrightarrow>
      fst (add_embeddings raises st e ts) = Inl AssertionError
      \<and> stored_rows (snd (add_embeddings raises st e ts)) = stored_rows st
      \<and> texts (snd (add_embeddings raises st e ts)) = texts st)
   \<and> (ncols e = index_width st \<longrightarrow>
      fst (add_embeddings raises st e ts) = Inr ()
      \<and> length (stored_rows (snd (add_embeddings raises st e ts)))
          = length (stored_rows st) + len_array e
      \<and> texts (snd (add_embeddings raises st e ts)) = texts st @ ts)"
proof (cases "ncols e = index_width st")
  case True
  then show ?thesis
    by (simp add: add_embeddings_right_width stored_rows_def len_array_def
        normalize_embeddings_rows)
next
  case False
  then show ?thesis
    by (simp add: add_embeddings_wrong_width stored_rows_def create_index_def
        new_IndexFlatIP_def)
qed

theorem add_embeddings_checks_width_only_witness:
  "ncols \<lparr>ncols = 3, rows = [[1, 0, 0]]\<rparr> \<noteq> index_width twin_store
   \<and> fst (add_embeddings False twin_store \<lparr>ncols = 3, rows = [[1, 0, 0]]\<rparr> [''c'']) = Inl AssertionError
   \<and> stored_rows (snd (add_embeddings False twin_store \<lparr>ncols = 3, rows = [[1, 0, 0]]\<rparr> [''c'']))
       = [[1, 0], [1, 0]]
   \<and> ncols \<lparr>ncols = 2, rows = [[0, 0]]\<rparr> = index_width twin_store
   \<and> fst (add_embeddings True twin_store \<lparr>ncols = 2, rows = [[0, 0]]\<rparr> []) = Inr ()
   \<and> texts (snd (add_embeddings True twin_store \<lparr>ncols = 2, rows = [[0, 0]]\<rparr> [])) = [''a'', ''b'']"
  using add_embeddings_checks_width_only
          [of "\<lparr>ncols = 3, rows = [[1, 0, 0]]\<rparr>" twin_store False "[''c'']"]
        add_embeddings_checks_width_only
          [of "\<lparr>ncols = 2, rows = [[0, 0]]\<rparr>" twin_store True "[]"]
  by (simp add: index_width_def twin_store_def stored_rows_def)

text \<open>
  C2 as stated fails: one row of the right width added with no text at all is accepted, and
  the index then holds one row.
\<close>

theorem add_embeddings_count_mismatch_counterexample:
  "len_array \<lparr>ncols = 2, rows = [[1, 0]]\<rparr> \<noteq> length ([] :: string list)
   \<and> fst (add_embeddings False (init_store example_config) \<lparr>ncols = 2, rows = [[1, 0]]\<rparr> []) = Inr ()
   \<and> stats_total_embeddings (get_stats (snd
        (add_embeddings False (init_store example_config) \<lparr>ncols = 2, rows = [[1, 0]]\<rparr> []))) = 1"
  by (simp add: len_array_def add_embeddings_def init_store_def example_config_def create_index_def
      new_IndexFlatIP_def index_add_def normalize_embeddings_def faiss_normalize_L2_def
      get_stats_def ntotal_def)

section \<open>Searching an object without rows\<close>

text \<open>
  C7. On an object that holds no row, whether its index was never created or is empty,
  \<^verbatim>\<open>search\<close> returns the pair of two empty lists, for every query and every \<open>k\<close>; it raises
  nothing.
\<close>

theorem search_empty_index:
  "stats_total_embeddings (get_stats st) = 0 \<Longrightarrow> search raises st q k = Inr ([], [])"
  by (simp add: get_stats_def search_def split: option.splits)

theorem search_empty_index_witness:
  "stats_total_embeddings (get_stats (init_store example_config)) = 0
   \<and> search True (init_store example_config) [1, 0] 5 = Inr ([], [])
   \<and> stats_total_embeddings (get_stats (create_index (init_store example_config))) = 0
   \<and> search False (create_index (init_store example_config)) [1, 0] 1 = Inr ([], [])"
proof -
  have a: "stats_total_embeddings (get_stats (init_store example_config)) = 0"
    by (simp add: get_stats_def init_store_def)
  have b: "stats_total_embeddings (get_stats (create_index (init_store example_config))) = 0"
    by (simp add: get_stats_def init_store_def create_index_def new_IndexFlatIP_def ntotal_def)
  show ?thesis
    using a b search_empty_index [OF a, of True "[1, 0]" 5]
      search_empty_index [OF b, of False "[1, 0]" 1]
    by simp
qed

section \<open>Searching\<close>

text \<open>
  The ranking the library computes holds every stored row once, each score with the label
  of its row, the scores in descending order.
\<close>

lemma length_ranked: "length (ranked ix q) = ntotal ix"
  by (simp add: ranked_def ntotal_def)

lemma ranked_member:
  assumes "p \<in> set (ranked ix q)"
  shows "0 \<le> snd p \<and> snd p < int (ntotal ix) \<and> nat (snd p) < ntotal ix
         \<and> fst p = inner_product q (index_xb ix ! nat (snd p))"
proof -
  from assms
  have "p \<in> set (zip (map (inner_product q) (index_xb ix)) (map int [0..<ntotal ix]))"
    by (simp add: ranked_def)
  then obtain j where j: "j < ntotal ix" "p = (inner_product q (index_xb ix ! j), int j)"
    by (auto simp: in_set_zip ntotal_def)
  then show ?thesis by simp
qed

lemma ranked_descending: "sorted_wrt (\<ge>) (map fst (ranked ix q))"
proof -
  have "sorted (map (\<lambda>p. - fst p) (ranked ix q))"
    unfolding ranked_def by (rule sorted_sort_key)
  then show ?thesis
    by (simp add: sorted_map sorted_wrt_map)
qed

lemma ranked_labels_distinct: "distinct (map snd (ranked ix q))"
proof -
  let ?xs = "zip (map (inner_product q) (index_xb ix)) (map int [0..<ntotal ix])"
  have "map snd ?xs = map int [0..<ntotal ix]"
    by (simp add: ntotal_def)
  then have "distinct (map snd ?xs)"
    by (simp add: distinct_map)
  then have "distinct ?xs \<and> inj_on snd (set ?xs)"
    by (simp only: distinct_map)
  then have "distinct (ranked ix q) \<and> inj_on snd (set (ranked ix q))"
    by (simp add: ranked_def)
  then show ?thesis
    by (simp only: distinct_map)
qed

lemma lookup_texts_in_range:
  assumes "\<forall>i \<in> set labels. 0 \<le> i \<and> i < int (length ts)"
  shows "lookup_texts ts labels = Inr (map (\<lambda>i. ts ! nat i) labels)"
  using assms by (induction labels) (simp_all add: getitem_def)

lemma sorted_wrt_take_ge: "sorted_wrt P xs \<Longrightarrow> sorted_wrt P (take n xs)"
  by (metis append_take_drop_id sorted_wrt_append)

text \<open>
  C1, as amended. On an object that holds \<open>n \<ge> 1\<close> rows and a text for each, for a query of
  the index's width and \<open>1 \<le> k \<le> n\<close>, \<^verbatim>\<open>search\<close> returns exactly \<open>k\<close> results: there are
  \<open>k\<close> distinct stored positions such that the returned texts are the texts at these
  positions and the returned scores are the inner products of the normalised query with the
  rows at these positions, and the scores are in descending order; equal scores may follow
  one another, so the order is not strict.
\<close>

theorem search_within_size:
  assumes "index st = Some ix" and "ntotal ix \<le> length (texts st)"
    and "0 < k" and "nat k \<le> ntotal ix" and "length q = index_d ix"
  shows "\<exists>ids. length ids = nat k \<and> distinct ids \<and> (\<forall>i \<in> set ids. i < ntotal ix)
      \<and> search raises st q k
          = Inr (map (\<lambda>i. texts st ! i) ids,
                 map (\<lambda>i. inner_product (normalize_query raises q) (index_xb ix ! i)) ids)
      \<and> sorted_wrt (\<ge>)
          (map (\<lambda>i. inner_product (normalize_query raises q) (index_xb ix ! i)) ids)"
proof -
  let ?q = "normalize_query raises q"
  let ?top = "take (nat k) (ranked ix ?q)"
  let ?ids = "map (\<lambda>p. nat (snd p)) ?top"
  have len: "length ?top = nat k"
    using assms(4) by (simp add: length_ranked)
  have mem: "p \<in> set ?top \<Longrightarrow> 0 \<le> snd p \<and> snd p < int (ntotal ix)
               \<and> nat (snd p) < ntotal ix \<and> fst p = inner_product ?q (index_xb ix ! nat (snd p))" for p
    using ranked_member [of p ix ?q] by (auto dest: in_set_takeD)
  have scores: "map fst ?top = map (\<lambda>i. inner_product ?q (index_xb ix ! i)) ?ids"
    using mem by simp
  have "distinct (map snd ?top)"
    using ranked_labels_distinct [of ix ?q] by (simp add: take_map [symmetric] distinct_take)
  moreover have "inj_on nat (set (map snd ?top))"
  proof (rule inj_onI)
    fix a b
    assume a: "a \<in> set (map snd ?top)" and b: "b \<in> set (map snd ?top)"
      and eq: "nat a = nat b"
    from a mem have "0 \<le> a" by auto
    moreover from b mem have "0 \<le> b" by auto
    ultimately show "a = b" using eq by simp
  qed
  ultimately have "distinct (map nat (map snd ?top))"
    by (simp only: distinct_map)
  then have dist: "distinct ?ids" by (simp add: comp_def)
  have bound: "\<forall>i \<in> set ?ids. i < ntotal ix"
    using mem by auto
  have "int (ntotal ix) \<le> int (length (texts st))"
    using assms(2) by simp
  then have "\<forall>i \<in> set (map snd ?top). 0 \<le> i \<and> i < int (length (texts st))"
    using mem by fastforce
  then have "lookup_texts (texts st) (map snd ?top)
               = Inr (map (\<lambda>i. texts st ! nat i) (map snd ?top))"
    by (rule lookup_texts_in_range)
  then have look: "lookup_texts (texts st) (map snd ?top) = Inr (map (\<lambda>i. texts st ! i) ?ids)"
    by (simp add: comp_def)
  have pos: "ntotal ix \<noteq> 0"
    using assms(3,4) by auto 
  have "search raises st q k = Inr (map (\<lambda>i. texts st ! i) ?ids, map fst ?top)"
    using assms(1,3,5) pos len look
    by (simp add: search_def index_search_def length_normalize_query Let_def)
  moreover have "sorted_wrt (\<ge>) (map fst ?top)"
    using ranked_descending [of ix ?q] by (simp add: take_map [symmetric] sorted_wrt_take_ge)
  ultimately show ?thesis
    using len dist bound scores by (intro exI [of _ ?ids]) simp
qed

theorem search_within_size_witness:
  "index axes_store = Some \<lparr>index_d = 2, index_xb = [[1, 0], [0, 1]]\<rparr>
   \<and> ntotal \<lparr>index_d = 2, index_xb = [[1, 0], [0, 1]]\<rparr> \<le> length (texts axes_store)
   \<and> (0::int) < 2 \<and> nat 2 \<le> ntotal \<lparr>index_d = 2, index_xb = [[1, 0], [0, 1]]\<rparr>
   \<and> length [0, 2 :: real] = index_d \<lparr>index_d = 2, index_xb = [[1, 0], [0, 1]]\<rparr>
   \<and> search False axes_store [0, 2] 2 = Inr ([''b'', ''a''], [1, 0])"
  using search_within_size
          [of axes_store "\<lparr>index_d = 2, index_xb = [[1, 0], [0, 1]]\<rparr>" 2 "[0, 2]" False]
  by (simp add: axes_store_def ntotal_def search_def index_search_def ranked_def
      normalize_query_def fvec_renorm_L2_def norm_L2sqr_def inner_product_def getitem_def upt_rec)

text \<open>
  C1 as stated fails on an object holding the same row twice. With \<open>k = 2\<close> the two
  scores are equal, hence not strictly descending. With \<open>k = 3\<close> the library pads its
  answer with the label \<open>-1\<close>, which passes the filter \<^verbatim>\<open>idx < len(self.texts)\<close> and
  reads the last text again: three results come back from two stored rows.
\<close>

theorem search_ties_and_padding_counterexample:
  "stats_total_embeddings (get_stats twin_store) = 2
   \<and> search False twin_store [1, 0] 2 = Inr ([''b'', ''a''], [1, 1])
   \<and> \<not> sorted_wrt (>) [1, 1 :: real]
   \<and> search False twin_store [1, 0] 3 = Inr ([''b'', ''a'', ''b''], [1, 1, FLT_LOWEST])
   \<and> \<not> length [''b'', ''a'', ''b''] \<le> min (nat 3) (stats_total_embeddings (get_stats twin_store))"
  by (simp add: twin_store_def get_stats_def ntotal_def search_def index_search_def ranked_def
      normalize_query_def fvec_renorm_L2_def norm_L2sqr_def inner_product_def getitem_def upt_rec)

section \<open>Ingestion\<close>

lemma process_documents_acc:
  "process_documents f docs acc n = Inr (chunks, m)
     \<Longrightarrow> \<exists>new. chunks = acc @ new \<and> m = n + length new"
proof (induction docs arbitrary: acc n)
  case Nil
  then show ?case by simp
next
  case (Cons pdf_content rest)
  then show ?case
    by (cases "f pdf_content") (fastforce)+
qed

lemma process_documents_count:
  "process_documents f docs [] 0 = Inr (chunks, m) \<Longrightarrow> m = length chunks"
  by (drule process_documents_acc) auto

lemma add_embeddings_index: "index (snd (add_embeddings raises st e ts)) \<noteq> None"
  by (auto simp: add_embeddings_def create_index_def Let_def index_add_def
      split: option.splits)

text \<open>
  When the collaborators return and the batch has the width of the index, ingestion goes
  through: nothing else is checked.
\<close>

lemma ingest_accepts:
  assumes "process_documents (process_pdf_content cs) docs [] 0 = Inr (chunks, n)"
    and "generate_embeddings cs chunks = Inr emb"
    and "ncols emb = index_width (vector_store p)"
  shows "fst (ingest_pdf_documents cs p fs docs)
           = Inr \<lparr>total_documents = length docs, total_chunks = length chunks,
                  total_embeddings = len_array emb,
                  vector_store_stats =
                    get_stats (snd (add_embeddings (normalize_L2_raises cs) (vector_store p) emb chunks))\<rparr>"
    and "fst (snd (ingest_pdf_documents cs p fs docs))
           = p\<lparr>vector_store := snd (add_embeddings (normalize_L2_raises cs) (vector_store p) emb chunks),
               is_indexed := True\<rparr>"
proof -
  let ?r = "add_embeddings (normalize_L2_raises cs) (vector_store p) emb chunks"
  have n: "n = length chunks"
    using assms(1) by (rule process_documents_count)
  obtain vs where r: "?r = (Inr (), vs)"
    using add_embeddings_right_width [OF assms(3)] by simp
  have "index vs \<noteq> None"
    using add_embeddings_index [of "normalize_L2_raises cs" "vector_store p" emb chunks] r
    by simp
  then obtain ix where ix: "index vs = Some ix" by blast
  show "fst (ingest_pdf_documents cs p fs docs)
           = Inr \<lparr>total_documents = length docs, total_chunks = length chunks,
                  total_embeddings = len_array emb,
                  vector_store_stats = get_stats (snd ?r)\<rparr>"
    using assms(1,2) n r ix by (simp add: ingest_pdf_documents_def save_index_def Let_def)
  show "fst (snd (ingest_pdf_documents cs p fs docs))
           = p\<lparr>vector_store := snd ?r, is_indexed := True\<rparr>"
    using assms(1,2) n r ix by (simp add: ingest_pdf_documents_def save_index_def Let_def)
qed

text \<open>
  On the same conditions the pipeline and the files afterwards are known in full.
\<close>

lemma ingest_persists:
  assumes "process_documents (process_pdf_content cs) docs [] 0 = Inr (chunks, n)"
    and "generate_embeddings cs chunks = Inr emb"
    and "ncols emb = index_width (vector_store p)"
  shows "fst (snd (ingest_pdf_documents cs p fs docs))
           = p\<lparr>vector_store := (vector_store p)
                  \<lparr>index := Some \<lparr>index_d = index_width (vector_store p),
                                    index_xb = stored_rows (vector_store p)
                                      @ rows (normalize_embeddings (normalize_L2_raises cs) emb)\<rparr>,
                   texts := texts (vector_store p) @ chunks\<rparr>,
               is_indexed := True\<rparr>"
    and "snd (snd (ingest_pdf_documents cs p fs docs))
           = fs(''pdf_faiss_index.index'' \<mapsto>
                  IndexFile \<lparr>index_d = index_width (vector_store p),
                             index_xb = stored_rows (vector_store p)
                               @ rows (normalize_embeddings (normalize_L2_raises cs) emb)\<rparr>,
                ''pdf_faiss_index_texts.pkl'' \<mapsto> PickleFile (texts (vector_store p) @ chunks))"
  using assms
  by (simp_all add: ingest_pdf_documents_def add_embeddings_right_width save_index_def
      resolve_path_def Let_def)

text \<open>
  What holds after every ingestion that returns, and after every one that raises.
\<close>

lemma ingest_returned:
  assumes "fst (ingest_pdf_documents cs p fs docs) = Inr s"
  shows "is_indexed (fst (snd (ingest_pdf_documents cs p fs docs)))
     \<and> total_documents s = length docs
     \<and> index (vector_store (fst (snd (ingest_pdf_documents cs p fs docs)))) \<noteq> None
     \<and> snd (snd (ingest_pdf_documents cs p fs docs)) ''pdf_faiss_index.index''
         = map_option IndexFile (index (vector_store (fst (snd (ingest_pdf_documents cs p fs docs)))))
     \<and> snd (snd (ingest_pdf_documents cs p fs docs)) ''pdf_faiss_index_texts.pkl''
         = Some (PickleFile (texts (vector_store (fst (snd (ingest_pdf_documents cs p fs docs))))))"
proof -
  obtain chunks n where pd: "process_documents (process_pdf_content cs) docs [] 0 = Inr (chunks, n)"
    using assms by (auto simp: ingest_pdf_documents_def split: sum.splits)
  obtain emb where ge: "generate_embeddings cs chunks = Inr emb"
    using assms pd by (auto simp: ingest_pdf_documents_def split: sum.splits)
  let ?r = "add_embeddings (normalize_L2_raises cs) (vector_store p) emb chunks"
  obtain vs where r: "?r = (Inr (), vs)"
    using assms pd ge by (cases ?r) (auto simp: ingest_pdf_documents_def split: sum.splits)
  have "index vs \<noteq> None"
    using add_embeddings_index [of "normalize_L2_raises cs" "vector_store p" emb chunks] r
    by simp
  then obtain ix where ix: "index vs = Some ix" by blast
  show ?thesis
    using assms pd ge r ix
    by (auto simp: ingest_pdf_documents_def save_index_def resolve_path_def Let_def)
qed

lemma ingest_raised:
  assumes "fst (ingest_pdf_documents cs p fs docs) = Inl e"
  shows "is_indexed (fst (snd (ingest_pdf_documents cs p fs docs))) = is_indexed p"
  using assms
  by (auto simp: ingest_pdf_documents_def save_index_def Let_def split: sum.splits prod.splits)

text \<open>
  C3, as amended. An ingestion call that returns leaves the pipeline indexed, whether or not
  it added a chunk, with an index in the object and the index and the texts of the object
  written to the two files of \<^verbatim>\<open>pdf_faiss_index\<close>; one that raises leaves the flag as it
  was. A batch without chunks is not treated apart. The embedding collaborator is called on
  the empty batch: when it raises, the call raises the same error and changes nothing; when
  it returns an array of the index's width, the normalised rows of that array are appended
  to the index (which is created first if there was none) while the texts stay as they
  were, the resulting index and the texts are written to the two files, and the call
  returns, reporting zero chunks, with the pipeline indexed.
\<close>

theorem ingest_marks_indexed:
  "(let r = ingest_pdf_documents cs p fs docs; p' = fst (snd r); fs' = snd (snd r) in
     (case fst r of
        Inl e \<Rightarrow> is_indexed p' = is_indexed p
      | Inr s \<Rightarrow>
          is_indexed p' \<and> total_documents s = length docs
          \<and> index (vector_store p') \<noteq> None
          \<and> fs' ''pdf_faiss_index.index'' = map_option IndexFile (index (vector_store p'))
          \<and> fs' ''pdf_faiss_index_texts.pkl'' = Some (PickleFile (texts (vector_store p'))))
     \<and> (process_documents (process_pdf_content cs) docs [] 0 = Inr ([], n) \<longrightarrow>
          (case generate_embeddings cs [] of
             Inl e \<Rightarrow> r = (Inl e, p, fs)
           | Inr emb \<Rightarrow>
               ncols emb = index_width (vector_store p) \<longrightarrow>
                 fst r = Inr \<lparr>total_documents = length docs, total_chunks = 0,
                              total_embeddings = len_array emb,
                              vector_store_stats = get_stats (vector_store p')\<rparr>
                 \<and> p' = p\<lparr>vector_store := (vector_store p)
                            \<lparr>index := Some \<lparr>index_d = index_width (vector_store p),
                                              index_xb = stored_rows (vector_store p)
                                                @ rows (normalize_embeddings (normalize_L2_raises cs) emb)\<rparr>\<rparr>,
                          is_indexed := True\<rparr>
                 \<and> fs' = fs(''pdf_faiss_index.index'' \<mapsto>
                              IndexFile \<lparr>index_d = index_width (vector_store p),
                                         index_xb = stored_rows (vector_store p)
                                           @ rows (normalize_embeddings (normalize_L2_raises cs) emb)\<rparr>,
                            ''pdf_faiss_index_texts.pkl'' \<mapsto> PickleFile (texts (vector_store p))))))"
proof -
  let ?r = "ingest_pdf_documents cs p fs docs"
  have general: "case fst ?r of
        Inl e \<Rightarrow> is_indexed (fst (snd ?r)) = is_indexed p
      | Inr s \<Rightarrow>
          is_indexed (fst (snd ?r)) \<and> total_documents s = length docs
          \<and> index (vector_store (fst (snd ?r))) \<noteq> None
          \<and> snd (snd ?r) ''pdf_faiss_index.index''
              = map_option IndexFile (index (vector_store (fst (snd ?r))))
          \<and> snd (snd ?r) ''pdf_faiss_index_texts.pkl''
              = Some (PickleFile (texts (vector_store (fst (snd ?r)))))"
  proof (cases "fst ?r")
    case (Inl e)
    then show ?thesis using ingest_raised [OF Inl] by simp
  next
    case (Inr s)
    then show ?thesis using ingest_returned [OF Inr] by simp
  qed
  have empty: "case generate_embeddings cs [] of
             Inl e \<Rightarrow> ?r = (Inl e, p, fs)
           | Inr emb \<Rightarrow>
               ncols emb = index_width (vector_store p) \<longrightarrow>
                 fst ?r = Inr \<lparr>total_documents = length docs, total_chunks = 0,
                              total_embeddings = len_array emb,
                              vector_store_stats = get_stats (vector_store (fst (snd ?r)))\<rparr>
                 \<and> fst (snd ?r) = p\<lparr>vector_store := (vector_store p)
                            \<lparr>index := Some \<lparr>index_d = index_width (vector_store p),
                                              index_xb = stored_rows (vector_store p)
                                                @ rows (normalize_embeddings (normalize_L2_raises cs) emb)\<rparr>\<rparr>,
                          is_indexed := True\<rparr>
                 \<and> snd (snd ?r) = fs(''pdf_faiss_index.index'' \<mapsto>
                              IndexFile \<lparr>index_d = index_width (vector_store p),
                                         index_xb = stored_rows (vector_store p)
                                           @ rows (normalize_embeddings (normalize_L2_raises cs) emb)\<rparr>,
                            ''pdf_faiss_index_texts.pkl'' \<mapsto> PickleFile (texts (vector_store p)))"
    if pd: "process_documents (process_pdf_content cs) docs [] 0 = Inr ([], n)"
  proof (cases "generate_embeddings cs []")
    case (Inl e)
    then show ?thesis using pd by (simp add: ingest_pdf_documents_def)
  next
    case (Inr emb)
    show ?thesis
      using Inr ingest_accepts [OF pd Inr, of p fs] ingest_persists [OF pd Inr, of p fs]
      by simp
  qed
  show ?thesis
    using general empty by (simp add: Let_def)
qed

theorem ingest_marks_indexed_witness:
  "process_documents (process_pdf_content no_text_collaborators) [[], []] [] 0 = Inr ([], 0)
   \<and> generate_embeddings no_text_collaborators [] = Inr \<lparr>ncols = 2, rows = []\<rparr>
   \<and> ncols \<lparr>ncols = 2, rows = []\<rparr> = index_width (vector_store (init_pipeline example_config))
   \<and> fst (ingest_pdf_documents no_text_collaborators (init_pipeline example_config) Map.empty
        [[], []])
      = Inr \<lparr>total_documents = 2, total_chunks = 0, total_embeddings = 0,
             vector_store_stats = \<lparr>stats_total_embeddings = 0, stats_dimension = 2,
                                    stats_total_texts = Some 0\<rparr>\<rparr>
   \<and> is_indexed (fst (snd (ingest_pdf_documents no_text_collaborators
        (init_pipeline example_config) Map.empty [[], []])))
   \<and> index (vector_store (fst (snd (ingest_pdf_documents no_text_collaborators
        (init_pipeline example_config) Map.empty [[], []]))))
      = Some \<lparr>index_d = 2, index_xb = []\<rparr>
   \<and> snd (snd (ingest_pdf_documents no_text_collaborators (init_pipeline example_config)
        Map.empty [[], []])) ''pdf_faiss_index.index''
      = Some (IndexFile \<lparr>index_d = 2, index_xb = []\<rparr>)
   \<and> snd (snd (ingest_pdf_documents no_text_collaborators (init_pipeline example_config)
        Map.empty [[], []])) ''pdf_faiss_index_texts.pkl''
      = Some (PickleFile [])
   \<and> process_documents (process_pdf_content raising_collaborators) [] [] 0 = Inr ([], 0)
   \<and> generate_embeddings raising_collaborators [] = Inl (Exception ''embedding'')
   \<and> ingest_pdf_documents raising_collaborators (init_pipeline example_config) Map.empty []
      = (Inl (Exception ''embedding''), init_pipeline example_config, Map.empty)"
  using ingest_marks_indexed
          [of no_text_collaborators "init_pipeline example_config" Map.empty "[[], []]" 0]
        ingest_marks_indexed
          [of raising_collaborators "init_pipeline example_config" Map.empty "[]" 0]
  by (simp add: Let_def no_text_collaborators_def raising_collaborators_def init_pipeline_def
      init_store_def example_config_def index_width_def stored_rows_def len_array_def
      get_stats_def ntotal_def normalize_embeddings_rows)

text \<open>
  C3 as stated fails: a pipeline that has indexed nothing, given one document without text,
  reports zero chunks and zero embeddings and is indexed afterwards.
\<close>

theorem ingest_empty_batch_counterexample:
  "\<not> is_indexed (init_pipeline example_config)
   \<and> process_documents (process_pdf_content no_text_collaborators) [[]] [] 0 = Inr ([], 0)
   \<and> fst (ingest_pdf_documents no_text_collaborators (init_pipeline example_config) Map.empty [[]])
      = Inr \<lparr>total_documents = 1, total_chunks = 0, total_embeddings = 0,
             vector_store_stats = \<lparr>stats_total_embeddings = 0, stats_dimension = 2,
                                    stats_total_texts = Some 0\<rparr>\<rparr>
   \<and> is_indexed (fst (snd (ingest_pdf_documents no_text_collaborators
        (init_pipeline example_config) Map.empty [[]])))"
  by (simp add: no_text_collaborators_def init_pipeline_def init_store_def example_config_def
      ingest_pdf_documents_def add_embeddings_def create_index_def new_IndexFlatIP_def
      index_add_def normalize_embeddings_def faiss_normalize_L2_def
      save_index_def resolve_path_def get_stats_def ntotal_def len_array_def)




section \<open>Persistence\<close>




text \<open>
  C6. For every name \<open>p\<close> and every object whose index exists, \<^verbatim>\<open>save_index(p)\<close> returns
  normally, and \<^verbatim>\<open>load_index(p)\<close> on a new object then answers \<^verbatim>\<open>True\<close> and leaves that
  object with the saved index (the same rows, as stored after normalisation, in the same
  order) and the saved texts in the same order, hence with the same size.
\<close>

theorem save_load_roundtrip:
  assumes "index st \<noteq> None"
  shows "fst (save_index st fs (Some p)) = Inr ()
     \<and> load_index (init_store cfg) (snd (save_index st fs (Some p))) (Some p)
         = (True, (init_store cfg)\<lparr>index := index st, texts := texts st\<rparr>)
     \<and> stats_total_embeddings (get_stats ((init_store cfg)\<lparr>index := index st, texts := texts st\<rparr>))
         = stats_total_embeddings (get_stats st)"
  using assms
  by (auto simp: save_index_def load_index_def resolve_path_def get_stats_def Let_def)

theorem save_load_roundtrip_witness:
  "index twin_store \<noteq> None
   \<and> fst (save_index twin_store Map.empty (Some ''pdf_faiss_index'')) = Inr ()
   \<and> load_index (init_store example_config)
        (snd (save_index twin_store Map.empty (Some ''pdf_faiss_index''))) (Some ''pdf_faiss_index'')
      = (True, twin_store)"
  using save_load_roundtrip [of twin_store Map.empty "''pdf_faiss_index''" example_config]
  by (simp add: twin_store_def init_store_def example_config_def)

section \<open>Queries\<close>

text \<open>
  C8. On a pipeline that is not indexed, and so on a pipeline just reset or just built,
  \<^verbatim>\<open>query\<close> returns the dictionary that says no index is available, for every question and
  every \<open>k\<close>. The result is the same for all collaborators, also for collaborators that
  raise at every call: no embedding, search or answer generation takes place, and nothing
  is raised.
\<close>

theorem query_not_indexed:
  "(\<not> is_indexed p \<longrightarrow> query cs p question k = Inr not_indexed_result)
   \<and> query cs (reset_pipeline cfg p) question k = Inr not_indexed_result
   \<and> query cs (init_pipeline cfg) question k = Inr not_indexed_result"
  by (simp add: query_def reset_pipeline_def init_pipeline_def)

theorem query_not_indexed_witness:
  "\<not> is_indexed (init_pipeline example_config)
   \<and> query raising_collaborators (init_pipeline example_config) ''What is X?'' 5
       = Inr not_indexed_result
   \<and> query raising_collaborators
        (reset_pipeline example_config \<lparr>vector_store = twin_store, is_indexed = True\<rparr>)
        ''What is X?'' 5
       = Inr not_indexed_result"
  using query_not_indexed
          [of "init_pipeline example_config" raising_collaborators "''What is X?''" 5
              example_config]
        query_not_indexed
          [of "\<lparr>vector_store = twin_store, is_indexed = True\<rparr>" raising_collaborators
              "''What is X?''" 5 example_config]
  by (simp add: init_pipeline_def)

text \<open>
  C10. When \<^verbatim>\<open>query\<close> returns a dictionary without the key \<^verbatim>\<open>error\<close>, the pipeline is
  indexed, the embedding of the question was computed, the context and the similarity
  scores of the dictionary are the two lists \<^verbatim>\<open>search\<close> returned for that embedding and
  \<open>k\<close>, the context is not empty, and \<^verbatim>\<open>num_context_chunks\<close> is its length.
\<close>

theorem query_success_fields:
  assumes "query cs p question k = Inr r" and "q_error r = None"
  shows "q_num_context_chunks r = Some (length (q_context r))
     \<and> q_context r \<noteq> []
     \<and> is_indexed p
     \<and> (case generate_single_embedding cs question of
          Inl e \<Rightarrow> False
        | Inr qe \<Rightarrow>
            search (normalize_L2_raises cs) (vector_store p) qe k
              = Inr (q_context r, q_similarity_scores r))"
  using assms
  by (auto simp: query_def not_indexed_result_def no_context_result_def
      split: if_splits sum.splits prod.splits)

theorem query_success_fields_witness:
  "query one_row_collaborators \<lparr>vector_store = twin_store, is_indexed = True\<rparr> ''What is X?'' 2
      = Inr \<lparr>q_response = ''an answer'', q_context = [''b'', ''a''],
             q_similarity_scores = [1, 1], q_error = None, q_num_context_chunks = Some 2\<rparr>
   \<and> search False twin_store [1, 0] 2 = Inr ([''b'', ''a''], [1, 1])"
proof -
  have q: "query one_row_collaborators \<lparr>vector_store = twin_store, is_indexed = True\<rparr>
             ''What is X?'' 2
      = Inr \<lparr>q_response = ''an answer'', q_context = [''b'', ''a''],
             q_similarity_scores = [1, 1], q_error = None, q_num_context_chunks = Some 2\<rparr>"
    by (simp add: query_def one_row_collaborators_def twin_store_def search_def ntotal_def
        index_search_def ranked_def normalize_query_def fvec_renorm_L2_def norm_L2sqr_def
        inner_product_def getitem_def upt_rec)
  show ?thesis
    using q query_success_fields [OF q]
    by (simp add: one_row_collaborators_def)
qed

end
